theory Spec2Isabelle
  imports Main "HOL-Library.Word"
begin

section \<open>ResearchForm: the form component of src/components/ResearchForm.tsx\<close>

text \<open>
  The component keeps a draft of a research record (three text fields and two optional
  file lists), two pieces of React state (\<open>imagePreview\<close>, \<open>fileName\<close>) and the form
  state of the form library (\<open>errors\<close>, \<open>isSubmitting\<close>). Everything it does to the
  outside (the console, the toast service, the consumer callback, a file reader) is
  recorded, in order, in the \<open>effects\<close> list of the state.
\<close>

subsection \<open>Strings and files\<close>

text \<open>
  A JavaScript string is a sequence of UTF-16 code units, and \<open>.length\<close> counts code
  units: the list length here.
\<close>

type_synonym js_string = "16 word list"

definition ascii :: "string \<Rightarrow> js_string" where
  "ascii cs = map (\<lambda>c. of_nat (of_char c)) cs"

text \<open>A \<open>File\<close>: the component reads its \<open>name\<close>; the reader reads its bytes.\<close>

datatype js_file = File (name: js_string) (bytes: "8 word list")

type_synonym file_list = "js_file list"

subsection \<open>The draft: \<open>FormData = z.infer<typeof formSchema>\<close>\<close>

record FormData =
  title :: js_string
  abstract :: js_string
  researcher :: js_string
  image' :: "file_list option"
  researchFile :: "file_list option"

datatype field = Title | Abstract | Researcher | Image | ResearchFile

text \<open>The form is created with no default values: every text input is empty, no file.\<close>

definition emptyForm :: FormData where
  "emptyForm = \<lparr>title = [], abstract = [], researcher = [], image' = None, researchFile = None\<rparr>"

subsection \<open>The validation schema (source lines 13-19)\<close>

text \<open>The three messages of the schema, as code units (they are Thai text).\<close>

definition msg_title :: js_string where
  "msg_title = [0x0E01, 0x0E23, 0x0E38, 0x0E13, 0x0E32, 0x0E43, 0x0E2A, 0x0E48, 0x0E0A, 0x0E37,
     0x0E48, 0x0E2D, 0x0E42, 0x0E04, 0x0E23, 0x0E07, 0x0E01, 0x0E32, 0x0E23]"

definition msg_abstract :: js_string where
  "msg_abstract = [0x0E1A, 0x0E17, 0x0E04, 0x0E31, 0x0E14, 0x0E22, 0x0E48, 0x0E2D, 0x0E15, 0x0E49,
     0x0E2D, 0x0E07, 0x0E21, 0x0E35, 0x0E2D, 0x0E22, 0x0E48, 0x0E32, 0x0E07, 0x0E19, 0x0E49, 0x0E2D,
     0x0E22, 0x0020, 0x0031, 0x0030, 0x0020, 0x0E15, 0x0E31, 0x0E27, 0x0E2D, 0x0E31, 0x0E01, 0x0E29,
     0x0E23]"

definition msg_researcher :: js_string where
  "msg_researcher = [0x0E01, 0x0E23, 0x0E38, 0x0E13, 0x0E32, 0x0E43, 0x0E2A, 0x0E48, 0x0E0A,
     0x0E37, 0x0E48, 0x0E2D, 0x0E19, 0x0E31, 0x0E01, 0x0E27, 0x0E34, 0x0E08, 0x0E31, 0x0E22]"

text \<open>
  Modelled from the spec: the combinators of the validation library (zod), whose code is
  not part of the repository (spec 4.1: title non-empty, abstract of length at least 10,
  researcher non-empty, the two files optional without further constraint, one message
  per invalid field). \<open>z.string().min(n, msg)\<close> on a string: one issue, carrying
  \<open>msg\<close>, when the string has fewer than \<open>n\<close> code units.
\<close>

definition string_min :: "nat \<Rightarrow> js_string \<Rightarrow> js_string \<Rightarrow> js_string list" where
  "string_min n msg v = (if length v < n then [msg] else [])"

text \<open>
  \<open>z.instanceof(FileList).optional()\<close>: an absent value passes, and so does a
  \<open>FileList\<close>; the type of the draft admits nothing else.
\<close>

definition instanceof_FileList_optional :: "file_list option \<Rightarrow> js_string list" where
  "instanceof_FileList_optional v = (case v of None \<Rightarrow> [] | Some fl \<Rightarrow> [])"

text \<open>The issues of the object schema, field by field in the order of declaration.\<close>

definition formSchema :: "FormData \<Rightarrow> (field \<times> js_string) list" where
  "formSchema d =
     map (Pair Title) (string_min 1 msg_title (title d)) @
     map (Pair Abstract) (string_min 10 msg_abstract (abstract d)) @
     map (Pair Researcher) (string_min 1 msg_researcher (researcher d)) @
     map (Pair Image) (instanceof_FileList_optional (image' d)) @
     map (Pair ResearchFile) (instanceof_FileList_optional (researchFile d))"

text \<open>
  Modelled from the spec: \<open>zodResolver\<close> of the resolver library, whose code is not part
  of the repository. \<open>zodResolver(formSchema)\<close> gives the parsed values when there is no
  issue, otherwise the error map from field to message, which keeps the first issue of
  every field (spec 3: a mapping from field name to message, present only for invalid
  fields).
\<close>

definition zodResolver :: "FormData \<Rightarrow> (field \<rightharpoonup> js_string) + FormData" where
  "zodResolver d = (case formSchema d of [] \<Rightarrow> Inr d | i # rest \<Rightarrow> Inl (map_of (i # rest)))"

subsection \<open>Effects and component state\<close>

datatype variant = Destructive

datatype toast_props =
  ToastProps (toast_title: js_string) (toast_description: js_string) (toast_variant: "variant option")

datatype effect =
    ConsoleLog js_string FormData
  | Toast toast_props
  | OnSubmit FormData
  | ReadAsDataURL js_file

record state =
  formValues :: FormData
  errors :: "field \<rightharpoonup> js_string"
  isSubmitting :: bool
  imagePreview :: "js_string option"
  fileName :: "js_string option"
  effects :: "effect list"

text \<open>On mount: \<open>useState(null)\<close> twice and a form without default values.\<close>

definition initial :: state where
  "initial = \<lparr>formValues = emptyForm, errors = Map.empty, isSubmitting = False,
     imagePreview = None, fileName = None, effects = []\<rparr>"

definition setImagePreview :: "js_string option \<Rightarrow> state \<Rightarrow> state" where
  "setImagePreview v s = s\<lparr>imagePreview := v\<rparr>"

definition setFileName :: "js_string option \<Rightarrow> state \<Rightarrow> state" where
  "setFileName v s = s\<lparr>fileName := v\<rparr>"

definition emit :: "effect \<Rightarrow> state \<Rightarrow> state" where
  "emit e s = s\<lparr>effects := effects s @ [e]\<rparr>"

text \<open>
  Modelled from the spec: \<open>setValue\<close> and \<open>reset\<close> of the form library (react-hook-form),
  whose code is not part of the repository. \<open>setValue\<close> stores one field of the draft.
  \<open>reset\<close> clears the form library's part of the state: the draft fields and the error
  map go back to empty and \<open>isSubmitting\<close> to false (spec 4.1 (3) and 4.3 step 4: it
  clears all fields and the derived state, which spec 3 lists as the error messages and
  \<open>isSubmitting\<close>). The preview and the file name are React state of the component:
  the source clears them itself, next to each call of \<open>reset\<close>.
\<close>

definition setValue :: "(FormData \<Rightarrow> FormData) \<Rightarrow> state \<Rightarrow> state" where
  "setValue upd s = s\<lparr>formValues := upd (formValues s)\<rparr>"

definition reset :: "state \<Rightarrow> state" where
  "reset s = s\<lparr>formValues := emptyForm, errors := Map.empty, isSubmitting := False\<rparr>"

subsection \<open>The file handlers (source lines 42-60)\<close>

text \<open>\<open>e.target.files?.[0]\<close>: absent when \<open>files\<close> is null or holds no file.\<close>

definition first_file :: "file_list option \<Rightarrow> js_file option" where
  "first_file files = (case files of None \<Rightarrow> None | Some [] \<Rightarrow> None | Some (f # _) \<Rightarrow> Some f)"

definition handleImageChange :: "file_list option \<Rightarrow> state \<Rightarrow> state" where
  "handleImageChange files s =
     (case first_file files of
        None \<Rightarrow> s
      | Some file \<Rightarrow> setValue (\<lambda>d. d\<lparr>image' := files\<rparr>) (emit (ReadAsDataURL file) s))"

text \<open>\<open>reader.onload\<close>, run by the browser when (and if) the read completes.\<close>

definition reader_onload :: "js_string option \<Rightarrow> state \<Rightarrow> state" where
  "reader_onload result s = setImagePreview result s"

definition handleFileChange :: "file_list option \<Rightarrow> state \<Rightarrow> state" where
  "handleFileChange files s =
     (case first_file files of
        None \<Rightarrow> s
      | Some file \<Rightarrow> setValue (\<lambda>d. d\<lparr>researchFile := files\<rparr>) (setFileName (Some (name file)) s))"

subsection \<open>The submit handler (source lines 62-86)\<close>

text \<open>
  The consumer callback is code of the embedding application: called with the draft, it
  either returns or throws. A statement of the handler maps a state to an outcome and the
  state it leaves; \<open>exec\<close> runs statements in order and stops at the first that throws,
  and \<open>states\<close> lists the states such a run passes through.
\<close>

datatype outcome = Returns | Throws

type_synonym consumer = "FormData \<Rightarrow> outcome"

type_synonym stmt = "state \<Rightarrow> outcome \<times> state"

definition normally :: "(state \<Rightarrow> state) \<Rightarrow> stmt" where
  "normally f s = (Returns, f s)"

fun exec :: "stmt list \<Rightarrow> state \<Rightarrow> outcome \<times> state" where
  "exec [] s = (Returns, s)"
| "exec (c # cs) s = (case c s of (Returns, s') \<Rightarrow> exec cs s' | (Throws, s') \<Rightarrow> (Throws, s'))"

fun states :: "stmt list \<Rightarrow> state \<Rightarrow> state list" where
  "states [] s = [s]"
| "states (c # cs) s = s # (case c s of (Returns, s') \<Rightarrow> states cs s' | (Throws, s') \<Rightarrow> [s'])"

definition log_label :: js_string where
  "log_label = [0x0E02, 0x0E49, 0x0E2D, 0x0E21, 0x0E39, 0x0E25, 0x0E17, 0x0E35, 0x0E48, 0x0E2A,
     0x0E48, 0x0E07, 0x003A]"

definition success_toast :: toast_props where
  "success_toast = ToastProps
     [0x0E1A, 0x0E31, 0x0E19, 0x0E17, 0x0E36, 0x0E01, 0x0E02, 0x0E49, 0x0E2D, 0x0E21, 0x0E39,
      0x0E25, 0x0E2A, 0x0E33, 0x0E40, 0x0E23, 0x0E47, 0x0E08]
     [0x0E02, 0x0E49, 0x0E2D, 0x0E21, 0x0E39, 0x0E25, 0x0E42, 0x0E04, 0x0E23, 0x0E07, 0x0E01,
      0x0E32, 0x0E23, 0x0E27, 0x0E34, 0x0E08, 0x0E31, 0x0E22, 0x0E44, 0x0E14, 0x0E49, 0x0E16,
      0x0E39, 0x0E01, 0x0E1A, 0x0E31, 0x0E19, 0x0E17, 0x0E36, 0x0E01, 0x0E41, 0x0E25, 0x0E49,
      0x0E27]
     None"

definition failure_toast :: toast_props where
  "failure_toast = ToastProps
     [0x0E40, 0x0E01, 0x0E34, 0x0E14, 0x0E02, 0x0E49, 0x0E2D, 0x0E1C, 0x0E34, 0x0E14, 0x0E1E,
      0x0E25, 0x0E32, 0x0E14]
     [0x0E44, 0x0E21, 0x0E48, 0x0E2A, 0x0E32, 0x0E21, 0x0E32, 0x0E23, 0x0E16, 0x0E1A, 0x0E31,
      0x0E19, 0x0E17, 0x0E36, 0x0E01, 0x0E02, 0x0E49, 0x0E2D, 0x0E21, 0x0E39, 0x0E25, 0x0E44,
      0x0E14, 0x0E49, 0x0020, 0x0E01, 0x0E23, 0x0E38, 0x0E13, 0x0E32, 0x0E25, 0x0E2D, 0x0E07,
      0x0E43, 0x0E2B, 0x0E21, 0x0E48, 0x0E2D, 0x0E35, 0x0E01, 0x0E04, 0x0E23, 0x0E31, 0x0E49,
      0x0E07]
     (Some Destructive)"

definition console_log :: "js_string \<Rightarrow> FormData \<Rightarrow> state \<Rightarrow> state" where
  "console_log label data s = emit (ConsoleLog label data) s"

definition toast :: "toast_props \<Rightarrow> state \<Rightarrow> state" where
  "toast t s = emit (Toast t) s"

text \<open>\<open>if (onSubmit) { onSubmit(data); }\<close>\<close>

definition call_onSubmit :: "consumer option \<Rightarrow> FormData \<Rightarrow> stmt" where
  "call_onSubmit onSubmit data s =
     (case onSubmit of
        None \<Rightarrow> (Returns, s)
      | Some f \<Rightarrow> (f data, emit (OnSubmit data) s))"

definition try_block :: "consumer option \<Rightarrow> FormData \<Rightarrow> stmt list" where
  "try_block onSubmit data =
     [normally (console_log log_label data),
      normally (toast success_toast),
      call_onSubmit onSubmit data,
      normally reset,
      normally (setImagePreview None),
      normally (setFileName None)]"

definition catch_block :: "stmt list" where
  "catch_block = [normally (toast failure_toast)]"

definition handleFormSubmit :: "consumer option \<Rightarrow> FormData \<Rightarrow> state \<Rightarrow> state" where
  "handleFormSubmit onSubmit data s =
     (case exec (try_block onSubmit data) s of
        (Returns, s') \<Rightarrow> s'
      | (Throws, s') \<Rightarrow> snd (exec catch_block s'))"

text \<open>The states the handler passes through, from its entry to its end.\<close>

definition handleFormSubmit_states :: "consumer option \<Rightarrow> FormData \<Rightarrow> state \<Rightarrow> state list" where
  "handleFormSubmit_states onSubmit data s =
     (case exec (try_block onSubmit data) s of
        (Returns, s') \<Rightarrow> states (try_block onSubmit data) s
      | (Throws, s') \<Rightarrow> states (try_block onSubmit data) s @ tl (states catch_block s'))"

subsection \<open>Submission and the two buttons (source lines 106, 231-249)\<close>

text \<open>
  Modelled from the spec: \<open>handleSubmit\<close> of the form library (react-hook-form), whose
  code is not part of the repository. It validates the whole draft with the resolver;
  on failure it stores the error map and does not call the handler; on success it
  raises \<open>isSubmitting\<close>, calls the handler with the validated draft, and lowers
  \<open>isSubmitting\<close> when the handler is done, whatever its outcome (spec 4.1, 4.3).
\<close>

definition handleSubmit :: "(FormData \<Rightarrow> state \<Rightarrow> state) \<Rightarrow> state \<Rightarrow> state" where
  "handleSubmit onValid s =
     (case zodResolver (formValues s) of
        Inl errs \<Rightarrow> s\<lparr>errors := errs\<rparr>
      | Inr data \<Rightarrow>
          (onValid data (s\<lparr>errors := Map.empty, isSubmitting := True\<rparr>))\<lparr>isSubmitting := False\<rparr>)"

text \<open>The states the handler passes through in one submit attempt: none when validation fails.\<close>

definition submit_states :: "consumer option \<Rightarrow> state \<Rightarrow> state list" where
  "submit_states onSubmit s =
     (case zodResolver (formValues s) of
        Inl errs \<Rightarrow> []
      | Inr data \<Rightarrow>
          handleFormSubmit_states onSubmit data (s\<lparr>errors := Map.empty, isSubmitting := True\<rparr>))"

text \<open>The submit button is rendered with \<open>disabled={isSubmitting}\<close>.\<close>

definition submit_disabled :: "state \<Rightarrow> bool" where
  "submit_disabled s = isSubmitting s"

definition submit_click :: "consumer option \<Rightarrow> state \<Rightarrow> state" where
  "submit_click onSubmit s =
     (if submit_disabled s then s else handleSubmit (handleFormSubmit onSubmit) s)"

text \<open>The clear button: \<open>reset(); setImagePreview(null); setFileName(null)\<close>.\<close>

definition clear_click :: "state \<Rightarrow> state" where
  "clear_click s = setFileName None (setImagePreview None (reset s))"

subsection \<open>Sample data\<close>

definition draft_solar :: FormData where
  "draft_solar = \<lparr>title = ascii ''Solar Silk Reeling Machine'',
     abstract = ascii ''A device that uses solar energy to power a silk-reeling mechanism for rural weavers.'',
     researcher = ascii ''Somchai Srisuwan'', image' = None, researchFile = None\<rparr>"

definition draft_short :: FormData where
  "draft_short = \<lparr>title = [], abstract = ascii ''short'', researcher = [],
     image' = None, researchFile = None\<rparr>"

definition photo :: js_file where
  "photo = File (ascii ''loom.png'') [0x89, 0x50, 0x4E, 0x47]"

definition paper :: js_file where
  "paper = File (ascii ''paper.pdf'') [0x25, 0x50, 0x44, 0x46]"

definition accepting :: consumer where
  "accepting data = Returns"

definition throwing :: consumer where
  "throwing data = Throws"

text \<open>A fresh form after the user has typed the three text fields of a draft.\<close>

definition typed_in :: "FormData \<Rightarrow> state" where
  "typed_in d = initial\<lparr>formValues := d\<rparr>"

text \<open>A form filled in by the user: the draft typed in, a preview and a file name shown.\<close>

definition filled :: "FormData \<Rightarrow> state" where
  "filled d = initial\<lparr>formValues := d, imagePreview := Some (ascii ''data:image/png;base64,iVBORw==''),
     fileName := Some (ascii ''paper.pdf'')\<rparr>"

section \<open>Properties\<close>

subsection \<open>Unfolding rules and facts shared by the proofs\<close>

lemma formSchema_valid:
  "title d \<noteq> [] \<Longrightarrow> researcher d \<noteq> [] \<Longrightarrow> 10 \<le> length (abstract d) \<Longrightarrow> formSchema d = []"
  by (simp add: formSchema_def string_min_def instanceof_FileList_optional_def
      split: option.splits)

lemma draft_solar_valid:
  "title draft_solar \<noteq> []" "researcher draft_solar \<noteq> []" "10 \<le> length (abstract draft_solar)"
  by (simp_all add: draft_solar_def ascii_def)

lemmas state_ops = setImagePreview_def setFileName_def emit_def setValue_def reset_def
  console_log_def toast_def normally_def call_onSubmit_def

lemmas handler_defs = handleFormSubmit_def handleFormSubmit_states_def try_block_def
  catch_block_def

lemmas schema_defs = formSchema_def string_min_def instanceof_FileList_optional_def

lemma zodResolver_valid:
  "title d \<noteq> [] \<Longrightarrow> researcher d \<noteq> [] \<Longrightarrow> 10 \<le> length (abstract d) \<Longrightarrow> zodResolver d = Inr d"
  by (simp add: zodResolver_def formSchema_valid)

lemma formSchema_invalid:
  "title d = [] \<or> researcher d = [] \<or> length (abstract d) < 10 \<Longrightarrow> formSchema d \<noteq> []"
  by (auto simp: schema_defs)

lemma zodResolver_invalid:
  "title d = [] \<or> researcher d = [] \<or> length (abstract d) < 10 \<Longrightarrow>
   zodResolver d = Inl (map_of (formSchema d))"
  using formSchema_invalid [of d] by (simp add: zodResolver_def split: list.splits)

lemma handleFormSubmit_returns:
  assumes "case onSubmit of None \<Rightarrow> True | Some f \<Rightarrow> f data = Returns"
  shows "handleFormSubmit onSubmit data s =
     s\<lparr>formValues := emptyForm, errors := Map.empty, isSubmitting := False,
       imagePreview := None, fileName := None,
       effects := effects s @ [ConsoleLog log_label data, Toast success_toast] @
         (case onSubmit of None \<Rightarrow> [] | Some f \<Rightarrow> [OnSubmit data])\<rparr>"
  using assms by (cases onSubmit) (simp_all add: handler_defs state_ops)

lemma handleFormSubmit_throws:
  assumes "f data = Throws"
  shows "handleFormSubmit (Some f) data s =
     s\<lparr>effects := effects s @ [ConsoleLog log_label data, Toast success_toast, OnSubmit data,
        Toast failure_toast]\<rparr>"
  using assms by (simp add: handler_defs state_ops)

lemma handleFormSubmit_states_flags:
  "map isSubmitting (handleFormSubmit_states onSubmit data s) =
     (case onSubmit of
        None \<Rightarrow> [isSubmitting s, isSubmitting s, isSubmitting s, isSubmitting s,
                 False, False, False]
      | Some f \<Rightarrow>
          (case f data of
             Returns \<Rightarrow> [isSubmitting s, isSubmitting s, isSubmitting s, isSubmitting s,
                         False, False, False]
           | Throws \<Rightarrow> [isSubmitting s, isSubmitting s, isSubmitting s, isSubmitting s,
                        isSubmitting s]))"
proof (cases onSubmit)
  case None
  then show ?thesis by (simp add: handler_defs state_ops)
next
  case (Some f)
  then show ?thesis by (cases "f data") (simp_all add: handler_defs state_ops)
qed

lemma typed_in_fields:
  "formValues (typed_in d) = d" "effects (typed_in d) = []" "isSubmitting (typed_in d) = False"
  "imagePreview (typed_in d) = None" "fileName (typed_in d) = None"
  "errors (typed_in d) = Map.empty"
  by (simp_all add: typed_in_def initial_def)

lemma handleFormSubmit_states_last:
  "handleFormSubmit_states onSubmit data s \<noteq> []
   \<and> hd (handleFormSubmit_states onSubmit data s) = s
   \<and> last (handleFormSubmit_states onSubmit data s) = handleFormSubmit onSubmit data s"
proof (cases onSubmit)
  case None
  then show ?thesis by (simp add: handler_defs state_ops)
next
  case (Some f)
  then show ?thesis by (cases "f data") (simp_all add: handler_defs state_ops)
qed

lemma draft_solar_schema: "zodResolver draft_solar = Inr draft_solar"
  by (simp add: zodResolver_valid draft_solar_valid)

lemma instanceof_FileList_optional_passes: "instanceof_FileList_optional v = []"
  by (cases v) (simp_all add: instanceof_FileList_optional_def)

lemmas schema_simps = formSchema_def string_min_def instanceof_FileList_optional_passes

lemma draft_short_issues:
  "formSchema draft_short = [(Title, msg_title), (Abstract, msg_abstract), (Researcher, msg_researcher)]"
  by (simp add: schema_defs draft_short_def ascii_def)

lemma filled_fields:
  "formValues (filled d) = d" "effects (filled d) = []" "isSubmitting (filled d) = False"
  "imagePreview (filled d) = Some (ascii ''data:image/png;base64,iVBORw=='')"
  "fileName (filled d) = Some (ascii ''paper.pdf'')"
  by (simp_all add: filled_def initial_def)

lemma handleImageChange_selected:
  "handleImageChange (Some (f # rest)) s =
     s\<lparr>formValues := (formValues s)\<lparr>image' := Some (f # rest)\<rparr>,
       effects := effects s @ [ReadAsDataURL f]\<rparr>"
  by (simp add: handleImageChange_def first_file_def state_ops)

lemma handleFileChange_selected:
  "handleFileChange (Some (f # rest)) s =
     s\<lparr>formValues := (formValues s)\<lparr>researchFile := Some (f # rest)\<rparr>,
       fileName := Some (name f)\<rparr>"
  by (simp add: handleFileChange_def first_file_def state_ops)

subsection \<open>Validation\<close>

text \<open>
  C5: validation succeeds for every draft whose title and researcher are non-empty and
  whose abstract has at least 10 code units, whatever the image and researchFile fields
  hold (absent or any file list): no issue is raised and the resolver returns the draft.
\<close>

theorem C5_validation_ignores_files:
  assumes "title d \<noteq> []" and "researcher d \<noteq> []" and "10 \<le> length (abstract d)"
  shows "formSchema (d\<lparr>image' := i, researchFile := r\<rparr>) = []
       \<and> zodResolver (d\<lparr>image' := i, researchFile := r\<rparr>)
           = Inr (d\<lparr>image' := i, researchFile := r\<rparr>)"
proof -
  have "formSchema (d\<lparr>image' := i, researchFile := r\<rparr>) = []"
    using assms by (intro formSchema_valid) simp_all
  then show ?thesis by (simp add: zodResolver_def)
qed

theorem C5_validation_ignores_files_witness:
  "title draft_solar \<noteq> [] \<and> researcher draft_solar \<noteq> [] \<and> 10 \<le> length (abstract draft_solar)
   \<and> formSchema (draft_solar\<lparr>image' := Some [photo, paper], researchFile := Some []\<rparr>) = []
   \<and> zodResolver (draft_solar\<lparr>image' := Some [photo, paper], researchFile := Some []\<rparr>)
       = Inr (draft_solar\<lparr>image' := Some [photo, paper], researchFile := Some []\<rparr>)"
  using draft_solar_valid
    C5_validation_ignores_files [OF draft_solar_valid, where i = "Some [photo, paper]" and r = "Some []"]
  by simp

text \<open>
  C2: for every draft whose title is empty, or whose researcher is empty, or whose abstract
  has fewer than 10 code units, submission is blocked. Whatever handler is passed, the
  result is the state before with only the error map replaced, so the handler (and with
  it the consumer callback) is not invoked, no notification is shown and nothing is
  reset. Every violated field gets exactly one issue and its message in the error map;
  the other fields get none.
\<close>

theorem C2_invalid_draft_blocked:
  assumes "title (formValues s) = [] \<or> researcher (formValues s) = []
         \<or> length (abstract (formValues s)) < 10"
  shows "handleSubmit onValid s = s\<lparr>errors := map_of (formSchema (formValues s))\<rparr>
       \<and> submit_states onSubmit s = []
       \<and> effects (handleSubmit onValid s) = effects s
       \<and> formValues (handleSubmit onValid s) = formValues s
       \<and> imagePreview (handleSubmit onValid s) = imagePreview s
       \<and> fileName (handleSubmit onValid s) = fileName s
       \<and> errors (handleSubmit onValid s) Title =
           (if title (formValues s) = [] then Some msg_title else None)
       \<and> errors (handleSubmit onValid s) Abstract =
           (if length (abstract (formValues s)) < 10 then Some msg_abstract else None)
       \<and> errors (handleSubmit onValid s) Researcher =
           (if researcher (formValues s) = [] then Some msg_researcher else None)
       \<and> errors (handleSubmit onValid s) Image = None
       \<and> errors (handleSubmit onValid s) ResearchFile = None
       \<and> count_list (map fst (formSchema (formValues s))) Title =
           (if title (formValues s) = [] then 1 else 0)
       \<and> count_list (map fst (formSchema (formValues s))) Abstract =
           (if length (abstract (formValues s)) < 10 then 1 else 0)
       \<and> count_list (map fst (formSchema (formValues s))) Researcher =
           (if researcher (formValues s) = [] then 1 else 0)
       \<and> msg_title \<noteq> [] \<and> msg_abstract \<noteq> [] \<and> msg_researcher \<noteq> []"
proof -
  have r: "zodResolver (formValues s) = Inl (map_of (formSchema (formValues s)))"
    using assms by (rule zodResolver_invalid)
  have hs: "handleSubmit onValid s = s\<lparr>errors := map_of (formSchema (formValues s))\<rparr>"
    by (simp add: handleSubmit_def r)
  have ss: "submit_states onSubmit s = []"
    by (simp add: submit_states_def r)
  have errs: "map_of (formSchema (formValues s)) Title =
           (if title (formValues s) = [] then Some msg_title else None)"
    "map_of (formSchema (formValues s)) Abstract =
           (if length (abstract (formValues s)) < 10 then Some msg_abstract else None)"
    "map_of (formSchema (formValues s)) Researcher =
           (if researcher (formValues s) = [] then Some msg_researcher else None)"
    "map_of (formSchema (formValues s)) Image = None"
    "map_of (formSchema (formValues s)) ResearchFile = None"
    by (simp_all add: schema_simps)
  have cnt: "count_list (map fst (formSchema (formValues s))) Title =
           (if title (formValues s) = [] then 1 else 0)"
    "count_list (map fst (formSchema (formValues s))) Abstract =
           (if length (abstract (formValues s)) < 10 then 1 else 0)"
    "count_list (map fst (formSchema (formValues s))) Researcher =
           (if researcher (formValues s) = [] then 1 else 0)"
    by (simp_all add: schema_simps)
  have msgs: "msg_title \<noteq> []" "msg_abstract \<noteq> []" "msg_researcher \<noteq> []"
    by (simp_all add: msg_title_def msg_abstract_def msg_researcher_def)
  show ?thesis
    unfolding hs using ss errs cnt msgs by simp
qed

theorem C2_invalid_draft_blocked_witness:
  "title (formValues (filled draft_short)) = []
   \<and> handleSubmit (handleFormSubmit (Some accepting)) (filled draft_short) =
       (filled draft_short)\<lparr>errors :=
          map_of [(Title, msg_title), (Abstract, msg_abstract), (Researcher, msg_researcher)]\<rparr>
   \<and> effects (handleSubmit (handleFormSubmit (Some accepting)) (filled draft_short)) = []
   \<and> formValues (handleSubmit (handleFormSubmit (Some accepting)) (filled draft_short)) = draft_short
   \<and> errors (handleSubmit (handleFormSubmit (Some accepting)) (filled draft_short)) Title
       = Some msg_title
   \<and> errors (handleSubmit (handleFormSubmit (Some accepting)) (filled draft_short)) Abstract
       = Some msg_abstract
   \<and> errors (handleSubmit (handleFormSubmit (Some accepting)) (filled draft_short)) Researcher
       = Some msg_researcher"
proof -
  have fields: "title draft_short = []" "researcher draft_short = []"
    "length (abstract draft_short) < 10"
    by (simp_all add: draft_short_def ascii_def)
  have h: "title (formValues (filled draft_short)) = [] \<or> researcher (formValues (filled draft_short)) = []
         \<or> length (abstract (formValues (filled draft_short))) < 10"
    by (simp add: filled_fields fields)
  show ?thesis
    using fields C2_invalid_draft_blocked [OF h, of "handleFormSubmit (Some accepting)" "Some accepting"]
    by (simp add: filled_fields draft_short_issues)
qed

subsection \<open>Submitting a valid draft\<close>

text \<open>
  C1, as stated, fails: with a valid draft and a consumer callback that throws, the handler
  leaves the \<open>try\<close> block at the call, so the draft, the preview and the file name are
  not reset.
\<close>

theorem C1_reset_skipped_counterexample:
  "title draft_solar \<noteq> [] \<and> 10 \<le> length (abstract draft_solar) \<and> researcher draft_solar \<noteq> []
   \<and> formValues (handleSubmit (handleFormSubmit (Some throwing)) (filled draft_solar)) = draft_solar
   \<and> draft_solar \<noteq> emptyForm
   \<and> imagePreview (handleSubmit (handleFormSubmit (Some throwing)) (filled draft_solar)) \<noteq> None
   \<and> fileName (handleSubmit (handleFormSubmit (Some throwing)) (filled draft_solar)) \<noteq> None"
proof -
  have "handleSubmit (handleFormSubmit (Some throwing)) (filled draft_solar) =
        (filled draft_solar)\<lparr>errors := Map.empty, isSubmitting := False,
          effects := [ConsoleLog log_label draft_solar, Toast success_toast, OnSubmit draft_solar,
            Toast failure_toast]\<rparr>"
    by (simp add: handleSubmit_def filled_def initial_def draft_solar_schema
        handleFormSubmit_throws throwing_def)
  moreover have "draft_solar \<noteq> emptyForm"
    by (simp add: draft_solar_def emptyForm_def ascii_def)
  ultimately show ?thesis
    using draft_solar_valid by (simp add: filled_def initial_def)
qed

text \<open>
  C1, amended: for every valid draft, when the consumer callback is absent or returns
  normally, a submit attempt logs the draft, then shows the success notification, then
  calls the callback (if supplied) exactly once with the submitted values, and only then
  resets the draft fields, the error map, \<open>imagePreview\<close> and \<open>fileName\<close>. The lists give
  the effects and the fields at the handler's entry and after each of its six
  statements.
\<close>

theorem C1_submit_success:
  assumes "title (formValues s) \<noteq> []" and "10 \<le> length (abstract (formValues s))"
    and "researcher (formValues s) \<noteq> []"
    and "case onSubmit of None \<Rightarrow> True | Some f \<Rightarrow> f (formValues s) = Returns"
  shows "effects (handleSubmit (handleFormSubmit onSubmit) s) =
           effects s @ [ConsoleLog log_label (formValues s), Toast success_toast] @
             (case onSubmit of None \<Rightarrow> [] | Some f \<Rightarrow> [OnSubmit (formValues s)])
       \<and> map effects (submit_states onSubmit s) =
           [effects s,
            effects s @ [ConsoleLog log_label (formValues s)],
            effects s @ [ConsoleLog log_label (formValues s), Toast success_toast],
            effects (handleSubmit (handleFormSubmit onSubmit) s),
            effects (handleSubmit (handleFormSubmit onSubmit) s),
            effects (handleSubmit (handleFormSubmit onSubmit) s),
            effects (handleSubmit (handleFormSubmit onSubmit) s)]
       \<and> map formValues (submit_states onSubmit s) =
           [formValues s, formValues s, formValues s, formValues s, emptyForm, emptyForm, emptyForm]
       \<and> map imagePreview (submit_states onSubmit s) =
           [imagePreview s, imagePreview s, imagePreview s, imagePreview s, imagePreview s, None, None]
       \<and> map fileName (submit_states onSubmit s) =
           [fileName s, fileName s, fileName s, fileName s, fileName s, fileName s, None]
       \<and> formValues (handleSubmit (handleFormSubmit onSubmit) s) = emptyForm
       \<and> errors (handleSubmit (handleFormSubmit onSubmit) s) = Map.empty
       \<and> imagePreview (handleSubmit (handleFormSubmit onSubmit) s) = None
       \<and> fileName (handleSubmit (handleFormSubmit onSubmit) s) = None"
proof -
  have v: "zodResolver (formValues s) = Inr (formValues s)"
    using assms(1-3) by (simp add: zodResolver_valid)
  have eff: "effects (handleSubmit (handleFormSubmit onSubmit) s) =
           effects s @ [ConsoleLog log_label (formValues s), Toast success_toast] @
             (case onSubmit of None \<Rightarrow> [] | Some f \<Rightarrow> [OnSubmit (formValues s)])"
    by (simp add: handleSubmit_def v handleFormSubmit_returns [OF assms(4)])
  have tr: "map effects (submit_states onSubmit s) =
           [effects s,
            effects s @ [ConsoleLog log_label (formValues s)],
            effects s @ [ConsoleLog log_label (formValues s), Toast success_toast],
            effects (handleSubmit (handleFormSubmit onSubmit) s),
            effects (handleSubmit (handleFormSubmit onSubmit) s),
            effects (handleSubmit (handleFormSubmit onSubmit) s),
            effects (handleSubmit (handleFormSubmit onSubmit) s)]"
    unfolding eff using assms(4)
    by (cases onSubmit; simp add: submit_states_def v handler_defs state_ops)
  have st: "map formValues (submit_states onSubmit s) =
           [formValues s, formValues s, formValues s, formValues s, emptyForm, emptyForm, emptyForm]"
    "map imagePreview (submit_states onSubmit s) =
           [imagePreview s, imagePreview s, imagePreview s, imagePreview s, imagePreview s, None, None]"
    "map fileName (submit_states onSubmit s) =
           [fileName s, fileName s, fileName s, fileName s, fileName s, fileName s, None]"
    using assms(4) by (cases onSubmit; simp add: submit_states_def v handler_defs state_ops)+
  show ?thesis
    using st tr by (simp add: handleSubmit_def v handleFormSubmit_returns [OF assms(4)])
qed

theorem C1_submit_success_witness:
  "title (formValues (filled draft_solar)) \<noteq> []
   \<and> 10 \<le> length (abstract (formValues (filled draft_solar)))
   \<and> researcher (formValues (filled draft_solar)) \<noteq> []
   \<and> accepting (formValues (filled draft_solar)) = Returns
   \<and> effects (handleSubmit (handleFormSubmit (Some accepting)) (filled draft_solar)) =
       [ConsoleLog log_label draft_solar, Toast success_toast, OnSubmit draft_solar]
   \<and> formValues (handleSubmit (handleFormSubmit (Some accepting)) (filled draft_solar)) = emptyForm
   \<and> imagePreview (handleSubmit (handleFormSubmit (Some accepting)) (filled draft_solar)) = None
   \<and> fileName (handleSubmit (handleFormSubmit (Some accepting)) (filled draft_solar)) = None"
proof -
  have fv: "formValues (filled draft_solar) = draft_solar"
    by (simp add: filled_def initial_def)
  have h: "title (formValues (filled draft_solar)) \<noteq> []"
    "10 \<le> length (abstract (formValues (filled draft_solar)))"
    "researcher (formValues (filled draft_solar)) \<noteq> []"
    "case Some accepting of None \<Rightarrow> True | Some f \<Rightarrow> f (formValues (filled draft_solar)) = Returns"
    using draft_solar_valid by (simp_all add: fv accepting_def)
  have e: "effects (filled draft_solar) = []"
    by (simp add: filled_def initial_def)
  show ?thesis
    using h(1-3) C1_submit_success [OF h] by (simp add: fv e accepting_def)
qed

subsection \<open>A consumer callback that throws\<close>

text \<open>
  C3: for every valid draft, if the consumer callback throws during submission, the last
  effect is the failure notification and nothing is reset: the draft fields,
  \<open>imagePreview\<close> and \<open>fileName\<close> keep their values from before the attempt, and the
  retained draft still passes validation, so the same submission can be tried again.
\<close>

theorem C3_throwing_callback_keeps_input:
  assumes "title (formValues s) \<noteq> []" and "10 \<le> length (abstract (formValues s))"
    and "researcher (formValues s) \<noteq> []"
    and "f (formValues s) = Throws"
  shows "last (effects (handleSubmit (handleFormSubmit (Some f)) s)) = Toast failure_toast
       \<and> formValues (handleSubmit (handleFormSubmit (Some f)) s) = formValues s
       \<and> imagePreview (handleSubmit (handleFormSubmit (Some f)) s) = imagePreview s
       \<and> fileName (handleSubmit (handleFormSubmit (Some f)) s) = fileName s
       \<and> zodResolver (formValues (handleSubmit (handleFormSubmit (Some f)) s)) = Inr (formValues s)"
proof -
  have v: "zodResolver (formValues s) = Inr (formValues s)"
    using assms(1-3) by (simp add: zodResolver_valid)
  show ?thesis
    by (simp add: handleSubmit_def v handleFormSubmit_throws [of f "formValues s", OF assms(4)])
qed

theorem C3_throwing_callback_keeps_input_witness:
  "title (formValues (filled draft_solar)) \<noteq> []
   \<and> 10 \<le> length (abstract (formValues (filled draft_solar)))
   \<and> researcher (formValues (filled draft_solar)) \<noteq> []
   \<and> throwing (formValues (filled draft_solar)) = Throws
   \<and> last (effects (handleSubmit (handleFormSubmit (Some throwing)) (filled draft_solar)))
       = Toast failure_toast
   \<and> formValues (handleSubmit (handleFormSubmit (Some throwing)) (filled draft_solar)) = draft_solar
   \<and> imagePreview (handleSubmit (handleFormSubmit (Some throwing)) (filled draft_solar))
       = Some (ascii ''data:image/png;base64,iVBORw=='')
   \<and> fileName (handleSubmit (handleFormSubmit (Some throwing)) (filled draft_solar))
       = Some (ascii ''paper.pdf'')"
proof -
  have h: "title (formValues (filled draft_solar)) \<noteq> []"
    "10 \<le> length (abstract (formValues (filled draft_solar)))"
    "researcher (formValues (filled draft_solar)) \<noteq> []"
    "throwing (formValues (filled draft_solar)) = Throws"
    using draft_solar_valid by (simp_all add: filled_fields throwing_def)
  show ?thesis
    using h C3_throwing_callback_keeps_input [of "filled draft_solar" throwing, OF h] by (simp add: filled_fields)
qed

text \<open>
  C4: at most one notification is fired per submit attempt, either a success message or a
  failure message, never both. The handler does not keep to it: the success notification
  is fired before the consumer callback is called, so for a valid draft and a callback
  that throws the attempt fires the success notification and then the failure
  notification.
\<close>

theorem C4_success_then_failure_notification:
  "effects (submit_click (Some throwing) (filled draft_solar)) =
     [ConsoleLog log_label draft_solar, Toast success_toast, OnSubmit draft_solar,
      Toast failure_toast]
   \<and> count_list (effects (submit_click (Some throwing) (filled draft_solar))) (Toast success_toast) = 1
   \<and> count_list (effects (submit_click (Some throwing) (filled draft_solar))) (Toast failure_toast) = 1
   \<and> success_toast \<noteq> failure_toast"
proof -
  have e: "effects (submit_click (Some throwing) (filled draft_solar)) =
     [ConsoleLog log_label draft_solar, Toast success_toast, OnSubmit draft_solar,
      Toast failure_toast]"
    by (simp add: submit_click_def submit_disabled_def handleSubmit_def filled_fields
        draft_solar_schema handleFormSubmit_throws throwing_def)
  have d: "success_toast \<noteq> failure_toast"
    by (simp add: success_toast_def failure_toast_def)
  show ?thesis
    unfolding e using d by simp
qed

subsection \<open>The submitting flag\<close>

text \<open>
  C8, as stated, fails: the flag is not true during every run of the handler. For a valid
  draft and a callback that returns, the handler reaches \<open>reset()\<close>, which lowers
  \<open>isSubmitting\<close>, so the flag is false in the handler's last three states.
\<close>

theorem C8_flag_lowered_by_reset_counterexample:
  "\<not> isSubmitting (typed_in draft_solar)
   \<and> formSchema (formValues (typed_in draft_solar)) = []
   \<and> map isSubmitting (submit_states (Some accepting) (typed_in draft_solar))
       = [True, True, True, True, False, False, False]
   \<and> \<not> list_all isSubmitting (submit_states (Some accepting) (typed_in draft_solar))"
proof -
  have m: "map isSubmitting (submit_states (Some accepting) (typed_in draft_solar))
       = [True, True, True, True, False, False, False]"
    by (simp add: submit_states_def typed_in_fields draft_solar_schema
        handleFormSubmit_states_flags accepting_def)
  have "list_all isSubmitting (submit_states (Some accepting) (typed_in draft_solar))
      = list_all id (map isSubmitting (submit_states (Some accepting) (typed_in draft_solar)))"
    by (simp add: list_all_iff)
  then have n: "\<not> list_all isSubmitting (submit_states (Some accepting) (typed_in draft_solar))"
    unfolding m by simp
  show ?thesis
    using m n by (simp add: typed_in_fields formSchema_valid draft_solar_valid)
qed

text \<open>
  C8, amended: in a submit attempt started while the form is not submitting, the handler
  is entered with \<open>isSubmitting\<close> true (whatever the handler, it is run on the state
  with the flag raised), and the flag stays true until the handler calls \<open>reset()\<close>:
  through the log, the success notification and the callback, and, when the callback
  throws, through the failure notification to the handler's end. \<open>reset()\<close> lowers it, so
  it is false in the last three states of a run whose callback is absent or returns.
  Once the attempt is over the flag is false on every outcome (handler finished, handler
  caught an exception, handler never entered). In any state with \<open>isSubmitting\<close> true
  the submit button is disabled and a click on it changes nothing; in any other state
  it is enabled.
\<close>

theorem C8_isSubmitting_until_reset:
  assumes "\<not> isSubmitting s"
  shows "\<not> isSubmitting (submit_click onSubmit s)
       \<and> (if isSubmitting t
          then submit_disabled t \<and> submit_click onSubmit t = t
          else \<not> submit_disabled t
             \<and> submit_click onSubmit t = handleSubmit (handleFormSubmit onSubmit) t)
       \<and> (if formSchema (formValues s) = []
          then hd (submit_states onSubmit s) = s\<lparr>errors := Map.empty, isSubmitting := True\<rparr>
             \<and> handleSubmit onValid s =
                 (onValid (formValues s) (hd (submit_states onSubmit s)))\<lparr>isSubmitting := False\<rparr>
             \<and> map isSubmitting (submit_states onSubmit s) =
                 (case onSubmit of
                    None \<Rightarrow> [True, True, True, True, False, False, False]
                  | Some f \<Rightarrow>
                      (case f (formValues s) of
                         Returns \<Rightarrow> [True, True, True, True, False, False, False]
                       | Throws \<Rightarrow> [True, True, True, True, True]))
             \<and> submit_click onSubmit s =
                 (last (submit_states onSubmit s))\<lparr>isSubmitting := False\<rparr>
          else submit_states onSubmit s = []
             \<and> handleSubmit onValid s = s\<lparr>errors := map_of (formSchema (formValues s))\<rparr>)"
proof -
  have button: "if isSubmitting t
          then submit_disabled t \<and> submit_click onSubmit t = t
          else \<not> submit_disabled t
             \<and> submit_click onSubmit t = handleSubmit (handleFormSubmit onSubmit) t"
    by (simp add: submit_click_def submit_disabled_def)
  show ?thesis
  proof (cases "formSchema (formValues s)")
    case Nil
    then have v: "zodResolver (formValues s) = Inr (formValues s)"
      by (simp add: zodResolver_def)
    let ?e = "s\<lparr>errors := Map.empty, isSubmitting := True\<rparr>"
    have ss: "submit_states onSubmit s = handleFormSubmit_states onSubmit (formValues s) ?e"
      by (simp add: submit_states_def v)
    have entry: "hd (submit_states onSubmit s) = ?e"
      using handleFormSubmit_states_last [of onSubmit "formValues s" ?e] by (simp add: ss)
    have pin: "handleSubmit onValid s =
        (onValid (formValues s) (hd (submit_states onSubmit s)))\<lparr>isSubmitting := False\<rparr>"
      unfolding entry by (simp add: handleSubmit_def v)
    have flags: "map isSubmitting (submit_states onSubmit s) =
                 (case onSubmit of
                    None \<Rightarrow> [True, True, True, True, False, False, False]
                  | Some f \<Rightarrow>
                      (case f (formValues s) of
                         Returns \<Rightarrow> [True, True, True, True, False, False, False]
                       | Throws \<Rightarrow> [True, True, True, True, True]))"
      by (simp add: ss handleFormSubmit_states_flags split: option.split outcome.split)
    have click: "submit_click onSubmit s =
        (last (submit_states onSubmit s))\<lparr>isSubmitting := False\<rparr>"
      using assms handleFormSubmit_states_last [of onSubmit "formValues s" ?e]
      by (simp add: submit_click_def submit_disabled_def handleSubmit_def v ss)
    have after: "\<not> isSubmitting (submit_click onSubmit s)"
      unfolding click by simp
    show ?thesis
      using after button entry pin flags click Nil by simp
  next
    case (Cons i rest)
    then have v: "zodResolver (formValues s) = Inl (map_of (formSchema (formValues s)))"
      by (simp add: zodResolver_def)
    have ss: "submit_states onSubmit s = []"
      by (simp add: submit_states_def v)
    have hs: "handleSubmit onValid s = s\<lparr>errors := map_of (formSchema (formValues s))\<rparr>"
      by (simp add: handleSubmit_def v)
    have after: "\<not> isSubmitting (submit_click onSubmit s)"
      using assms by (simp add: submit_click_def submit_disabled_def handleSubmit_def v)
    show ?thesis
      using after button ss hs Cons by simp
  qed
qed

theorem C8_isSubmitting_until_reset_witness:
  "\<not> isSubmitting (typed_in draft_solar)
   \<and> formSchema (formValues (typed_in draft_solar)) = []
   \<and> accepting (formValues (typed_in draft_solar)) = Returns
   \<and> hd (submit_states (Some accepting) (typed_in draft_solar))
       = (typed_in draft_solar)\<lparr>errors := Map.empty, isSubmitting := True\<rparr>
   \<and> map isSubmitting (submit_states (Some accepting) (typed_in draft_solar))
       = [True, True, True, True, False, False, False]
   \<and> \<not> isSubmitting (submit_click (Some accepting) (typed_in draft_solar))
   \<and> isSubmitting ((typed_in draft_solar)\<lparr>isSubmitting := True\<rparr>)
   \<and> submit_disabled ((typed_in draft_solar)\<lparr>isSubmitting := True\<rparr>)
   \<and> submit_click (Some accepting) ((typed_in draft_solar)\<lparr>isSubmitting := True\<rparr>)
       = (typed_in draft_solar)\<lparr>isSubmitting := True\<rparr>
   \<and> throwing (formValues (typed_in draft_solar)) = Throws
   \<and> map isSubmitting (submit_states (Some throwing) (typed_in draft_solar))
       = [True, True, True, True, True]
   \<and> \<not> isSubmitting (submit_click (Some throwing) (typed_in draft_solar))"
proof -
  have h: "\<not> isSubmitting (typed_in draft_solar)"
    by (simp add: typed_in_fields)
  have v: "formSchema (formValues (typed_in draft_solar)) = []"
    by (simp add: typed_in_fields formSchema_valid draft_solar_valid)
  have c: "accepting (formValues (typed_in draft_solar)) = Returns"
    "throwing (formValues (typed_in draft_solar)) = Throws"
    by (simp_all add: accepting_def throwing_def)
  note a = C8_isSubmitting_until_reset [OF h, where onSubmit = "Some accepting"
      and t = "(typed_in draft_solar)\<lparr>isSubmitting := True\<rparr>"
      and onValid = "handleFormSubmit (Some accepting)"]
  note b = C8_isSubmitting_until_reset [OF h, where onSubmit = "Some throwing"
      and t = "typed_in draft_solar" and onValid = "handleFormSubmit (Some throwing)"]
  show ?thesis
    using h v c a b by simp
qed

subsection \<open>The clear button\<close>

text \<open>
  C6: from any state, the clear button leaves title, abstract and researcher empty, the
  two file fields absent, and \<open>imagePreview\<close> and \<open>fileName\<close> absent. It fires nothing
  (the effects are unchanged) and does not validate: the error map is empty although the
  cleared draft violates the schema.
\<close>

theorem C6_clear_button:
  "title (formValues (clear_click s)) = []
   \<and> abstract (formValues (clear_click s)) = []
   \<and> researcher (formValues (clear_click s)) = []
   \<and> image' (formValues (clear_click s)) = None
   \<and> researchFile (formValues (clear_click s)) = None
   \<and> imagePreview (clear_click s) = None
   \<and> fileName (clear_click s) = None
   \<and> effects (clear_click s) = effects s
   \<and> errors (clear_click s) = Map.empty
   \<and> formSchema (formValues (clear_click s)) \<noteq> []"
  by (simp add: clear_click_def state_ops emptyForm_def schema_simps)

subsection \<open>The file handlers\<close>

text \<open>
  C7: when a file-change event delivers no file (\<open>files\<close> is null or an empty list),
  neither handler changes the state: the preview, the file name and the draft's two
  file fields stay as they were.
\<close>

theorem C7_cancelled_picker_changes_nothing:
  assumes "files = None \<or> files = Some []"
  shows "handleImageChange files s = s \<and> handleFileChange files s = s"
  using assms by (auto simp: handleImageChange_def handleFileChange_def first_file_def)

theorem C7_cancelled_picker_changes_nothing_witness:
  "handleImageChange (Some []) (filled (draft_solar\<lparr>image' := Some [photo], researchFile := Some [paper]\<rparr>))
     = filled (draft_solar\<lparr>image' := Some [photo], researchFile := Some [paper]\<rparr>)
   \<and> handleFileChange (Some []) (filled (draft_solar\<lparr>image' := Some [photo], researchFile := Some [paper]\<rparr>))
     = filled (draft_solar\<lparr>image' := Some [photo], researchFile := Some [paper]\<rparr>)
   \<and> handleImageChange None initial = initial \<and> handleFileChange None initial = initial"
  using C7_cancelled_picker_changes_nothing [of "Some []"
      "filled (draft_solar\<lparr>image' := Some [photo], researchFile := Some [paper]\<rparr>)"]
    C7_cancelled_picker_changes_nothing [of None initial]
  by simp

text \<open>
  C9: selecting an image (the change handler and, later, the reader's \<open>onload\<close>) leaves
  \<open>fileName\<close>, \<open>researchFile\<close> and the three text fields unchanged; selecting a
  document leaves \<open>imagePreview\<close>, \<open>image\<close> and the three text fields unchanged, and
  sets \<open>fileName\<close> to the file's name and \<open>researchFile\<close> to the selected file list.
\<close>

theorem C9_file_handlers_frame:
  assumes "files = Some (f # rest)"
  shows "fileName (reader_onload r (handleImageChange files s)) = fileName s
       \<and> researchFile (formValues (reader_onload r (handleImageChange files s))) = researchFile (formValues s)
       \<and> title (formValues (reader_onload r (handleImageChange files s))) = title (formValues s)
       \<and> abstract (formValues (reader_onload r (handleImageChange files s))) = abstract (formValues s)
       \<and> researcher (formValues (reader_onload r (handleImageChange files s))) = researcher (formValues s)
       \<and> fileName (handleImageChange files s) = fileName s
       \<and> researchFile (formValues (handleImageChange files s)) = researchFile (formValues s)
       \<and> title (formValues (handleImageChange files s)) = title (formValues s)
       \<and> abstract (formValues (handleImageChange files s)) = abstract (formValues s)
       \<and> researcher (formValues (handleImageChange files s)) = researcher (formValues s)
       \<and> imagePreview (handleFileChange files s) = imagePreview s
       \<and> image' (formValues (handleFileChange files s)) = image' (formValues s)
       \<and> title (formValues (handleFileChange files s)) = title (formValues s)
       \<and> abstract (formValues (handleFileChange files s)) = abstract (formValues s)
       \<and> researcher (formValues (handleFileChange files s)) = researcher (formValues s)
       \<and> fileName (handleFileChange files s) = Some (name f)
       \<and> researchFile (formValues (handleFileChange files s)) = files"
  unfolding assms handleImageChange_selected handleFileChange_selected reader_onload_def
  by (simp add: setImagePreview_def)

theorem C9_file_handlers_frame_witness:
  "fileName (reader_onload (Some (ascii ''data:image/png;base64,AAAA''))
      (handleImageChange (Some [photo]) (filled draft_solar))) = Some (ascii ''paper.pdf'')
   \<and> formValues (reader_onload (Some (ascii ''data:image/png;base64,AAAA''))
      (handleImageChange (Some [photo]) (filled draft_solar))) = draft_solar\<lparr>image' := Some [photo]\<rparr>
   \<and> imagePreview (handleFileChange (Some [paper]) (filled draft_solar))
       = Some (ascii ''data:image/png;base64,iVBORw=='')
   \<and> formValues (handleFileChange (Some [paper]) (filled draft_solar))
       = draft_solar\<lparr>researchFile := Some [paper]\<rparr>
   \<and> fileName (handleFileChange (Some [paper]) (filled draft_solar)) = Some (name paper)"
proof -
  note a = C9_file_handlers_frame [OF refl, where f = photo and rest = "[]"
      and r = "Some (ascii ''data:image/png;base64,AAAA'')" and s = "filled draft_solar"]
  note b = C9_file_handlers_frame [OF refl, where f = paper and rest = "[]" and r = None
      and s = "filled draft_solar"]
  have i: "formValues (reader_onload (Some (ascii ''data:image/png;base64,AAAA''))
      (handleImageChange (Some [photo]) (filled draft_solar))) = draft_solar\<lparr>image' := Some [photo]\<rparr>"
    by (simp add: reader_onload_def setImagePreview_def handleImageChange_selected filled_fields)
  have d: "formValues (handleFileChange (Some [paper]) (filled draft_solar))
       = draft_solar\<lparr>researchFile := Some [paper]\<rparr>"
    by (simp add: handleFileChange_selected filled_fields)
  show ?thesis
    using a b i d by (simp add: filled_fields)
qed

text \<open>
  C10: when an image is selected, on any form (valid or not), the change handler itself
  stores the selected file list in the draft's \<open>image\<close> field and starts the read; it
  does not touch \<open>imagePreview\<close>, which only \<open>onload\<close> sets, when the read completes.
  So when the draft is valid and is submitted before that, the handler is entered with
  the preview still what it was (absent, in a fresh form) and the consumer callback
  receives the draft with the image present.
\<close>

theorem C10_image_stored_before_preview:
  assumes "files = Some (f # rest)"
  shows "image' (formValues (handleImageChange files s)) = files
       \<and> imagePreview (handleImageChange files s) = imagePreview s
       \<and> effects (handleImageChange files s) = effects s @ [ReadAsDataURL f]
       \<and> imagePreview (reader_onload r (handleImageChange files s)) = r
       \<and> image' (formValues (reader_onload r (handleImageChange files s))) = files
       \<and> (title (formValues s) \<noteq> [] \<and> 10 \<le> length (abstract (formValues s))
            \<and> researcher (formValues s) \<noteq> [] \<longrightarrow>
          hd (map imagePreview (submit_states (Some accepting) (handleImageChange files s)))
            = imagePreview s
          \<and> effects (handleSubmit (handleFormSubmit (Some accepting)) (handleImageChange files s)) =
              effects s @ [ReadAsDataURL f,
                ConsoleLog log_label ((formValues s)\<lparr>image' := files\<rparr>), Toast success_toast,
                OnSubmit ((formValues s)\<lparr>image' := files\<rparr>)])"
proof -
  let ?s' = "handleImageChange files s"
  have s': "?s' = s\<lparr>formValues := (formValues s)\<lparr>image' := files\<rparr>,
       effects := effects s @ [ReadAsDataURL f]\<rparr>"
    unfolding assms(1) by (rule handleImageChange_selected)
  have handler: "image' (formValues ?s') = files
       \<and> imagePreview ?s' = imagePreview s
       \<and> effects ?s' = effects s @ [ReadAsDataURL f]
       \<and> imagePreview (reader_onload r ?s') = r
       \<and> image' (formValues (reader_onload r ?s')) = files"
    by (simp add: s' reader_onload_def setImagePreview_def)
  have submit: "hd (map imagePreview (submit_states (Some accepting) ?s')) = imagePreview s
          \<and> effects (handleSubmit (handleFormSubmit (Some accepting)) ?s') =
              effects s @ [ReadAsDataURL f,
                ConsoleLog log_label ((formValues s)\<lparr>image' := files\<rparr>), Toast success_toast,
                OnSubmit ((formValues s)\<lparr>image' := files\<rparr>)]"
    if valid: "title (formValues s) \<noteq> []" "10 \<le> length (abstract (formValues s))"
      "researcher (formValues s) \<noteq> []"
  proof -
    have v: "zodResolver (formValues ?s') = Inr ((formValues s)\<lparr>image' := files\<rparr>)"
      unfolding s' using valid by (simp add: zodResolver_valid)
    have sub: "effects (handleSubmit (handleFormSubmit (Some accepting)) ?s') =
           effects s @ [ReadAsDataURL f,
             ConsoleLog log_label ((formValues s)\<lparr>image' := files\<rparr>), Toast success_toast,
             OnSubmit ((formValues s)\<lparr>image' := files\<rparr>)]"
      unfolding handleSubmit_def v by (simp add: handleFormSubmit_returns s' accepting_def)
    have st: "hd (map imagePreview (submit_states (Some accepting) ?s')) = imagePreview s"
      unfolding submit_states_def v
      by (simp add: handler_defs state_ops s' accepting_def)
    show ?thesis using sub st by simp
  qed
  show ?thesis
    using handler submit by blast
qed

theorem C10_image_stored_before_preview_witness:
  "formSchema (formValues initial) \<noteq> []
   \<and> image' (formValues (handleImageChange (Some [photo]) initial)) = Some [photo]
   \<and> imagePreview (handleImageChange (Some [photo]) initial) = None
   \<and> effects (handleImageChange (Some [photo]) initial) = [ReadAsDataURL photo]
   \<and> imagePreview (reader_onload (Some (ascii ''data:image/png;base64,iVBORw==''))
        (handleImageChange (Some [photo]) initial))
       = Some (ascii ''data:image/png;base64,iVBORw=='')
   \<and> title (formValues (typed_in draft_solar)) \<noteq> []
   \<and> 10 \<le> length (abstract (formValues (typed_in draft_solar)))
   \<and> researcher (formValues (typed_in draft_solar)) \<noteq> []
   \<and> image' (formValues (handleImageChange (Some [photo]) (typed_in draft_solar))) = Some [photo]
   \<and> imagePreview (handleImageChange (Some [photo]) (typed_in draft_solar)) = None
   \<and> hd (map imagePreview (submit_states (Some accepting)
         (handleImageChange (Some [photo]) (typed_in draft_solar)))) = None
   \<and> effects (handleSubmit (handleFormSubmit (Some accepting))
         (handleImageChange (Some [photo]) (typed_in draft_solar))) =
       [ReadAsDataURL photo, ConsoleLog log_label (draft_solar\<lparr>image' := Some [photo]\<rparr>),
        Toast success_toast, OnSubmit (draft_solar\<lparr>image' := Some [photo]\<rparr>)]"
proof -
  have fresh: "formSchema (formValues initial) \<noteq> []"
    "imagePreview initial = None" "effects initial = []"
    by (simp_all add: initial_def emptyForm_def schema_simps)
  have h: "title (formValues (typed_in draft_solar)) \<noteq> []"
    "10 \<le> length (abstract (formValues (typed_in draft_solar)))"
    "researcher (formValues (typed_in draft_solar)) \<noteq> []"
    using draft_solar_valid by (simp_all add: typed_in_fields)
  note a = C10_image_stored_before_preview [OF refl, where f = photo and rest = "[]"
      and s = initial and r = "Some (ascii ''data:image/png;base64,iVBORw=='')"]
  note b = C10_image_stored_before_preview [OF refl, where f = photo and rest = "[]"
      and s = "typed_in draft_solar" and r = None]
  show ?thesis
    using fresh h a b by (simp add: typed_in_fields)
qed

end
